theory Spec2Isabelle
  imports Main
begin

section \<open>Data model (types used by the services)\<close>

text \<open>
  Timestamps are the millisecond values that \<open>Date.getTime()\<close> yields, as integers.
  Identifiers (\<open>uuidv4()\<close> values, server ids) are strings.
\<close>

type_synonym timestamp = int

datatype SyncStatus = Pending | Synced | Error

datatype Operation = Create | Update | Delete

text \<open>The \<open>Task\<close> interface. The field \<open>id\<close> is written \<open>t_id\<close>.\<close>

record Task =
  t_id :: string
  title :: string
  description :: "string option"
  completed :: bool
  created_at :: timestamp
  updated_at :: timestamp
  is_deleted :: bool
  sync_status :: SyncStatus
  server_id :: "string option"
  last_synced_at :: "timestamp option"

text \<open>
  The \<open>data\<close> column of a queue row is a JSON text. The services store either a whole
  task (\<open>JSON.stringify(task)\<close>) or the object \<open>{ id }\<close>.
\<close>

datatype Payload = TaskData Task | IdData string

text \<open>The \<open>SyncQueueItem\<close> interface; \<open>id\<close> is \<open>q_id\<close>, \<open>created_at\<close> is \<open>q_created_at\<close>.\<close>

record SyncQueueItem =
  q_id :: string
  task_id :: string
  operation :: Operation
  data :: Payload
  q_created_at :: timestamp
  retry_count :: int
  error_message :: "string option"

text \<open>
  The two tables of the SQLite database, each as the list of its rows in insertion order.
  The statements of the services are modelled on these lists; storage failures are not
  modelled.
\<close>

record Database =
  tasks :: "Task list"
  sync_queue :: "SyncQueueItem list"

datatype OutcomeStatus = Success | Conflict | Failure

text \<open>One element of \<open>BatchSyncResponse.processed_items\<close>.\<close>

record ProcessedItem =
  client_id :: string
  p_server_id :: "string option"
  status :: OutcomeStatus
  resolved_data :: "Task option"
  error :: "string option"

text \<open>One element of \<open>SyncResult.errors\<close>.\<close>

record SyncError =
  e_task_id :: string
  e_operation :: Operation
  e_error :: string
  e_timestamp :: timestamp

record SyncResult =
  success :: bool
  synced_items :: nat
  failed_items :: nat
  errors :: "SyncError list"

text \<open>
  What \<open>axios.post\<close> does for one batch: it throws an axios error, throws something
  else, or resolves with a response body.
\<close>

datatype Exchange = AxiosError string | Thrown string | Response "ProcessedItem list"

text \<open>
  Everything outside the process that a sync cycle reads: whether the health request
  succeeds, what the remote answers to the \<open>k\<close>-th batch of the cycle, the clock, and the
  numeric value of the environment variable \<open>SYNC_BATCH_SIZE\<close> (\<open>None\<close> when it is unset
  or not a number, so that \<open>Number(...)\<close> is \<open>NaN\<close>). Fractional batch sizes are not
  modelled.
\<close>

record Env =
  health_ok :: bool
  remote :: "nat \<Rightarrow> SyncQueueItem list \<Rightarrow> Exchange"
  now :: timestamp
  env_SYNC_BATCH_SIZE :: "int option"

text \<open>
  The state a cycle carries from batch to batch: the \<open>result\<close> object, the database and
  the list of batches posted to the remote so far.
\<close>

record Cycle =
  result :: SyncResult
  db :: Database
  exchanges :: "SyncQueueItem list list"

section \<open>SyncService\<close>

definition MAX_RETRY_COUNT :: int where
  "MAX_RETRY_COUNT = 3"

text \<open>\<open>Number(process.env.SYNC_BATCH_SIZE) || 10\<close>: \<open>NaN\<close> and \<open>0\<close> are falsy.\<close>

definition SYNC_BATCH_SIZE :: "Env \<Rightarrow> int" where
  "SYNC_BATCH_SIZE env =
     (case env_SYNC_BATCH_SIZE env of
        None \<Rightarrow> 10
      | Some n \<Rightarrow> if n = 0 then 10 else n)"

text \<open>\<open>x || null\<close> on an optional string: the empty string is falsy.\<close>

definition orNull :: "string option \<Rightarrow> string option" where
  "orNull x = (case x of None \<Rightarrow> None | Some s \<Rightarrow> if s = [] then None else Some s)"

text \<open>\<open>x || d\<close> on an optional string with a string default.\<close>

definition orElse :: "string option \<Rightarrow> string \<Rightarrow> string" where
  "orElse x d = (case x of None \<Rightarrow> d | Some s \<Rightarrow> if s = [] then d else s)"

text \<open>\<open>DELETE FROM sync_queue WHERE id = ?\<close>\<close>

definition deleteQueueItem :: "string \<Rightarrow> Database \<Rightarrow> Database" where
  "deleteQueueItem qid d = d\<lparr>sync_queue := filter (\<lambda>r. q_id r \<noteq> qid) (sync_queue d)\<rparr>"

text \<open>\<open>TaskService.getTask\<close>: \<open>SELECT * FROM tasks WHERE id = ? AND is_deleted = 0\<close>, first row.\<close>

definition getTask :: "Database \<Rightarrow> string \<Rightarrow> Task option" where
  "getTask d i = find (\<lambda>row. t_id row = i \<and> \<not> is_deleted row) (tasks d)"

text \<open>\<open>checkConnectivity\<close>: true iff the health request does not throw.\<close>

definition checkConnectivity :: "Env \<Rightarrow> bool" where
  "checkConnectivity env = health_ok env"

text \<open>
  \<open>getSyncQueueItems\<close>: \<open>SELECT * FROM sync_queue WHERE retry_count < ? ORDER BY created_at ASC\<close>.
  Rows with equal \<open>created_at\<close> are kept in insertion order.
\<close>

definition getSyncQueueItems :: "Database \<Rightarrow> SyncQueueItem list" where
  "getSyncQueueItems d =
     sort_key q_created_at (filter (\<lambda>r. retry_count r < MAX_RETRY_COUNT) (sync_queue d))"

text \<open>
  \<open>Array.prototype.slice(start, end)\<close> on integer arguments: a negative index counts
  from the end, and both are clamped to the array.
\<close>

definition relativeIndex :: "int \<Rightarrow> int \<Rightarrow> nat" where
  "relativeIndex len k = nat (if k < 0 then max (len + k) 0 else min k len)"

definition slice :: "'a list \<Rightarrow> int \<Rightarrow> int \<Rightarrow> 'a list" where
  "slice xs start end =
     (let len = int (length xs);
          k = relativeIndex len start;
          final = relativeIndex len end
      in take (final - k) (drop k xs))"

text \<open>
  \<open>createBatches\<close>: \<open>for (let i = 0; i < items.length; i += batchSize) batches.push(items.slice(i, i + batchSize))\<close>.
  With a batch size that is not positive the loop does not end on a non-empty array;
  the result is then \<open>None\<close>.
\<close>

partial_function (option) createBatches_loop ::
  "'a list \<Rightarrow> int \<Rightarrow> int \<Rightarrow> 'a list list \<Rightarrow> 'a list list option" where
  "createBatches_loop items batchSize i batches =
     (if i < int (length items)
      then createBatches_loop items batchSize (i + batchSize)
             (batches @ [slice items i (i + batchSize)])
      else Some batches)"

definition createBatches :: "'a list \<Rightarrow> int \<Rightarrow> 'a list list option" where
  "createBatches items batchSize = createBatches_loop items batchSize 0 []"

text \<open>
  \<open>processBatch\<close>: the response body, or the message of the error it throws
  (an axios error is wrapped, anything else is rethrown).
\<close>

definition processBatch :: "Env \<Rightarrow> nat \<Rightarrow> SyncQueueItem list \<Rightarrow> string + ProcessedItem list" where
  "processBatch env k items =
     (case remote env k items of
        AxiosError m \<Rightarrow> Inl (''Batch sync failed: '' @ m)
      | Thrown m \<Rightarrow> Inl m
      | Response r \<Rightarrow> Inr r)"

text \<open>
  \<open>resolveConflict\<close> compares \<open>new Date(updated_at).getTime()\<close> of the two versions and
  returns one of the two objects. A date that does not parse (\<open>NaN\<close>) is not modelled.
\<close>

definition resolveConflict :: "Task \<Rightarrow> Task \<Rightarrow> Task" where
  "resolveConflict localTask serverTask =
     (let localTimestamp = updated_at localTask;
          serverTimestamp = updated_at serverTask
      in if localTimestamp > serverTimestamp then localTask else serverTask)"

text \<open>
  \<open>updateSyncStatus\<close>: \<open>UPDATE tasks SET sync_status = ?, last_synced_at = ? [, server_id = ?] WHERE id = ?\<close>,
  then the queue row is deleted when the status is \<open>synced\<close>.
\<close>

definition updateSyncStatus ::
  "timestamp \<Rightarrow> string \<Rightarrow> string \<Rightarrow> SyncStatus \<Rightarrow> string option \<Rightarrow> Database \<Rightarrow> Database" where
  "updateSyncStatus t queueItemId taskId st serverId d =
     (let upd = (\<lambda>row.
            if t_id row = taskId
            then (let row1 = row\<lparr>sync_status := st, last_synced_at := Some t\<rparr>
                  in if orNull serverId \<noteq> None then row1\<lparr>server_id := serverId\<rparr> else row1)
            else row);
          d1 = d\<lparr>tasks := map upd (tasks d)\<rparr>
      in if st = Synced then deleteQueueItem queueItemId d1 else d1)"

text \<open>
  \<open>handleSyncError\<close>: at the maximum, \<open>UPDATE tasks SET sync_status = 'error' WHERE id = ?\<close>
  and the queue row is deleted; below it,
  \<open>UPDATE sync_queue SET retry_count = ?, error_message = ? WHERE id = ?\<close>.
\<close>

definition handleSyncError :: "SyncQueueItem \<Rightarrow> string \<Rightarrow> Database \<Rightarrow> Database" where
  "handleSyncError item message d =
     (let newRetryCount = retry_count item + 1
      in if newRetryCount \<ge> MAX_RETRY_COUNT
         then deleteQueueItem (q_id item)
                (d\<lparr>tasks := map (\<lambda>row. if t_id row = task_id item
                                        then row\<lparr>sync_status := Error\<rparr> else row) (tasks d)\<rparr>)
         else d\<lparr>sync_queue := map (\<lambda>r. if q_id r = q_id item
                                        then r\<lparr>retry_count := newRetryCount,
                                               error_message := Some message\<rparr>
                                        else r) (sync_queue d)\<rparr>)"

text \<open>
  The statements both failure paths of \<open>sync\<close> run for one entry:
  \<open>handleSyncError\<close>, \<open>result.failed_items++\<close>, \<open>result.errors.push(...)\<close>.
\<close>

definition recordFailure :: "timestamp \<Rightarrow> SyncQueueItem \<Rightarrow> string \<Rightarrow> Cycle \<Rightarrow> Cycle" where
  "recordFailure t item message c =
     c\<lparr>db := handleSyncError item message (db c),
       result := (result c)\<lparr>failed_items := failed_items (result c) + 1,
                            errors := errors (result c) @
                              [\<lparr>e_task_id = task_id item, e_operation = operation item,
                                e_error = message, e_timestamp = t\<rparr>]\<rparr>\<rparr>"

text \<open>The conflict branch's \<open>UPDATE tasks SET ... WHERE id = resolvedTask.id\<close>.\<close>

definition persistResolved :: "timestamp \<Rightarrow> Task \<Rightarrow> string option \<Rightarrow> Database \<Rightarrow> Database" where
  "persistResolved t resolvedTask serverId d =
     d\<lparr>tasks := map (\<lambda>row. if t_id row = t_id resolvedTask
                           then row\<lparr>title := title resolvedTask,
                                    description := orNull (description resolvedTask),
                                    completed := completed resolvedTask,
                                    updated_at := updated_at resolvedTask,
                                    sync_status := Synced,
                                    server_id := orNull serverId,
                                    last_synced_at := Some t\<rparr>
                           else row) (tasks d)\<rparr>"

text \<open>
  The body of \<open>for (const processedItem of batchResponse.processed_items)\<close>. The branch
  \<open>status === 'conflict' && resolved_data\<close> is the pattern \<open>(Conflict, Some serverTask)\<close>;
  every other outcome that is not a success takes the \<open>else\<close> branch.
\<close>

definition processOutcome :: "timestamp \<Rightarrow> SyncQueueItem list \<Rightarrow> Cycle \<Rightarrow> ProcessedItem \<Rightarrow> Cycle" where
  "processOutcome t batch c processedItem =
     (case find (\<lambda>item. task_id item = client_id processedItem) batch of
        None \<Rightarrow> c
      | Some queueItem \<Rightarrow>
          if status processedItem = Success then
            c\<lparr>db := updateSyncStatus t (q_id queueItem) (task_id queueItem) Synced
                      (p_server_id processedItem) (db c),
              result := (result c)\<lparr>synced_items := synced_items (result c) + 1\<rparr>\<rparr>
          else
            (case (status processedItem, resolved_data processedItem) of
               (Conflict, Some serverTask) \<Rightarrow>
                 (case getTask (db c) (task_id queueItem) of
                    None \<Rightarrow> c
                  | Some localTask \<Rightarrow>
                      (let resolvedTask = resolveConflict localTask serverTask
                       in c\<lparr>db := deleteQueueItem (q_id queueItem)
                                    (persistResolved t resolvedTask (p_server_id processedItem) (db c)),
                            result := (result c)\<lparr>synced_items := synced_items (result c) + 1\<rparr>\<rparr>))
             | _ \<Rightarrow>
                 recordFailure t queueItem (orElse (error processedItem) ''Unknown error'') c))"

text \<open>The body of \<open>for (const batch of batches)\<close>, for the \<open>k\<close>-th batch.\<close>

definition syncBatch :: "Env \<Rightarrow> nat \<Rightarrow> Cycle \<Rightarrow> SyncQueueItem list \<Rightarrow> Cycle" where
  "syncBatch env k c batch =
     (let c1 = c\<lparr>exchanges := exchanges c @ [batch]\<rparr>
      in case processBatch env k batch of
           Inr processed_items \<Rightarrow> foldl (processOutcome (now env) batch) c1 processed_items
         | Inl message \<Rightarrow> foldl (\<lambda>c' item. recordFailure (now env) item message c') c1 batch)"

fun syncBatches :: "Env \<Rightarrow> nat \<Rightarrow> SyncQueueItem list list \<Rightarrow> Cycle \<Rightarrow> Cycle" where
  "syncBatches env k [] c = c"
| "syncBatches env k (batch # rest) c = syncBatches env (Suc k) rest (syncBatch env k c batch)"

definition initialResult :: SyncResult where
  "initialResult = \<lparr>success = True, synced_items = 0, failed_items = 0, errors = []\<rparr>"

text \<open>
  \<open>sync\<close>. The value is \<open>None\<close> when the call does not return (see \<open>createBatches\<close>).
  The outer \<open>catch\<close> is reached by the error thrown when the remote is not reachable.
\<close>

definition sync :: "Env \<Rightarrow> Database \<Rightarrow> Cycle option" where
  "sync env d =
     (let c0 = \<lparr>result = initialResult, db = d, exchanges = []\<rparr>
      in if \<not> checkConnectivity env
         then Some (c0\<lparr>result := (result c0)\<lparr>success := False\<rparr>\<rparr>)
         else (let queueItems = getSyncQueueItems d
               in if length queueItems = 0 then Some c0
                  else (case createBatches queueItems (SYNC_BATCH_SIZE env) of
                          None \<Rightarrow> None
                        | Some batches \<Rightarrow>
                            (let c1 = syncBatches env 0 batches c0
                             in Some (c1\<lparr>result := (result c1)\<lparr>success :=
                                        (failed_items (result c1) = 0)\<rparr>\<rparr>)))))"

section \<open>TaskService\<close>

text \<open>
  The argument of \<open>createTask\<close>, with the fields the method reads. A request is modelled
  at one clock reading \<open>t\<close>, and the values of its \<open>uuidv4()\<close> calls are arguments, in
  call order.
\<close>

record TaskInput =
  in_title :: string
  in_description :: "string option"
  in_completed :: bool
  in_server_id :: "string option"
  in_last_synced_at :: "timestamp option"

definition createTask ::
  "timestamp \<Rightarrow> string \<Rightarrow> string \<Rightarrow> TaskInput \<Rightarrow> Database \<Rightarrow> Task \<times> Database" where
  "createTask t uuid1 uuid2 taskData d =
     (let task = \<lparr>t_id = uuid1, title = in_title taskData,
                  description = in_description taskData,
                  completed = in_completed taskData,
                  created_at = t, updated_at = t, is_deleted = False,
                  sync_status = Pending, server_id = in_server_id taskData,
                  last_synced_at = in_last_synced_at taskData\<rparr>;
          row = task\<lparr>description := orNull (description task),
                     server_id := orNull (server_id task)\<rparr>;
          d1 = d\<lparr>tasks := tasks d @ [row]\<rparr>;
          d2 = d1\<lparr>sync_queue := sync_queue d1 @
                 [\<lparr>q_id = uuid2, task_id = t_id task, operation = Create,
                   data = TaskData task, q_created_at = created_at task,
                   retry_count = 0, error_message = None\<rparr>]\<rparr>
      in (task, d2))"

text \<open>
  \<open>Partial<Task>\<close> as \<open>updateTask\<close> uses it: a field that is \<open>None\<close> is absent from the
  object; \<open>id\<close>, \<open>updated_at\<close> and \<open>sync_status\<close> are overwritten by the method.
\<close>

record TaskUpdates =
  u_title :: "string option"
  u_description :: "string option option"
  u_completed :: "bool option"
  u_created_at :: "timestamp option"
  u_is_deleted :: "bool option"
  u_server_id :: "string option option"
  u_last_synced_at :: "timestamp option option"

definition override :: "'a option \<Rightarrow> 'a \<Rightarrow> 'a" where
  "override u x = (case u of None \<Rightarrow> x | Some y \<Rightarrow> y)"

definition updateTask ::
  "timestamp \<Rightarrow> string \<Rightarrow> string \<Rightarrow> TaskUpdates \<Rightarrow> Database \<Rightarrow> Task option \<times> Database" where
  "updateTask t uuid i updates d =
     (case getTask d i of
        None \<Rightarrow> (None, d)
      | Some existingTask \<Rightarrow>
          (let updatedTask =
                 \<lparr>t_id = t_id existingTask,
                  title = override (u_title updates) (title existingTask),
                  description = override (u_description updates) (description existingTask),
                  completed = override (u_completed updates) (completed existingTask),
                  created_at = override (u_created_at updates) (created_at existingTask),
                  updated_at = t,
                  is_deleted = override (u_is_deleted updates) (is_deleted existingTask),
                  sync_status = Pending,
                  server_id = override (u_server_id updates) (server_id existingTask),
                  last_synced_at =
                    override (u_last_synced_at updates) (last_synced_at existingTask)\<rparr>;
               d1 = d\<lparr>tasks := map (\<lambda>row. if t_id row = i
                         then row\<lparr>title := title updatedTask,
                                  description := orNull (description updatedTask),
                                  completed := completed updatedTask,
                                  updated_at := updated_at updatedTask,
                                  sync_status := sync_status updatedTask,
                                  server_id := orNull (server_id updatedTask),
                                  last_synced_at := last_synced_at updatedTask\<rparr>
                         else row) (tasks d)\<rparr>;
               d2 = d1\<lparr>sync_queue := sync_queue d1 @
                      [\<lparr>q_id = uuid, task_id = t_id updatedTask, operation = Update,
                        data = TaskData updatedTask, q_created_at = updated_at updatedTask,
                        retry_count = 0, error_message = None\<rparr>]\<rparr>
           in (Some updatedTask, d2)))"

definition deleteTask ::
  "timestamp \<Rightarrow> string \<Rightarrow> string \<Rightarrow> Database \<Rightarrow> bool \<times> Database" where
  "deleteTask t uuid i d =
     (case getTask d i of
        None \<Rightarrow> (False, d)
      | Some task \<Rightarrow>
          (let d1 = d\<lparr>tasks := map (\<lambda>row. if t_id row = i
                         then row\<lparr>is_deleted := True, updated_at := t,
                                  sync_status := Pending\<rparr>
                         else row) (tasks d)\<rparr>;
               d2 = d1\<lparr>sync_queue := sync_queue d1 @
                      [\<lparr>q_id = uuid, task_id = i, operation = Delete,
                        data = IdData i, q_created_at = t,
                        retry_count = 0, error_message = None\<rparr>]\<rparr>
           in (True, d2)))"

text \<open>\<open>SyncService.addToSyncQueue\<close>\<close>

definition addToSyncQueue ::
  "timestamp \<Rightarrow> string \<Rightarrow> string \<Rightarrow> Operation \<Rightarrow> Payload \<Rightarrow> Database \<Rightarrow> Database" where
  "addToSyncQueue t uuid taskId op payload d =
     d\<lparr>sync_queue := sync_queue d @
        [\<lparr>q_id = uuid, task_id = taskId, operation = op, data = payload,
          q_created_at = t, retry_count = 0, error_message = None\<rparr>]\<rparr>"

section \<open>Task routes\<close>

text \<open>A field of a JSON request body, as far as the routes inspect it.\<close>

datatype JsValue = JUndefined | JNull | JString string | JBool bool | JOther

definition isSpace :: "char \<Rightarrow> bool" where
  "isSpace ch = (ch \<in> set [CHR '' '', CHR 0x09, CHR 0x0A, CHR 0x0B, CHR 0x0C, CHR 0x0D])"

text \<open>\<open>String.prototype.trim\<close> on ASCII white space.\<close>

definition trim :: "string \<Rightarrow> string" where
  "trim s = rev (dropWhile isSpace (rev (dropWhile isSpace s)))"

text \<open>
  \<open>description?.trim()\<close>: \<open>undefined\<close> for a nullish value, the trimmed string for a string,
  and a \<open>TypeError\<close> (\<open>None\<close>) for any other value, which has no \<open>trim\<close> method.
\<close>

definition optionalTrim :: "JsValue \<Rightarrow> string option option" where
  "optionalTrim v =
     (case v of
        JUndefined \<Rightarrow> Some None
      | JNull \<Rightarrow> Some None
      | JString s \<Rightarrow> Some (Some (trim s))
      | _ \<Rightarrow> None)"

definition isString :: "JsValue \<Rightarrow> bool" where
  "isString v = (case v of JString s \<Rightarrow> True | _ \<Rightarrow> False)"

definition isBoolean :: "JsValue \<Rightarrow> bool" where
  "isBoolean v = (case v of JBool b \<Rightarrow> True | _ \<Rightarrow> False)"

definition trimmedLength :: "JsValue \<Rightarrow> nat" where
  "trimmedLength v = (case v of JString s \<Rightarrow> length (trim s) | _ \<Rightarrow> 0)"

text \<open>
  Each route returns the HTTP status it sends and the database it leaves.
  \<open>router.post('/')\<close>: \<open>!title\<close> holds for no string but the empty one, whose trimmed
  length is 0.
\<close>

definition postRoute ::
  "timestamp \<Rightarrow> string \<Rightarrow> string \<Rightarrow> string \<Rightarrow> JsValue \<Rightarrow> JsValue \<Rightarrow> Database \<Rightarrow> nat \<times> Database" where
  "postRoute t uuid1 uuid2 uuid3 title_v description_v d =
     (if \<not> isString title_v \<or> trimmedLength title_v = 0 then (400, d)
      else (case (title_v, optionalTrim description_v) of
              (JString s, Some desc) \<Rightarrow>
                (let (task, d1) = createTask t uuid1 uuid2
                         \<lparr>in_title = trim s, in_description = desc, in_completed = False,
                          in_server_id = None, in_last_synced_at = None\<rparr> d
                 in (201, addToSyncQueue t uuid3 (t_id task) Create (TaskData task) d1))
            | _ \<Rightarrow> (500, d)))"

text \<open>\<open>router.put('/:id')\<close>\<close>

definition putRoute ::
  "timestamp \<Rightarrow> string \<Rightarrow> string \<Rightarrow> string \<Rightarrow> JsValue \<Rightarrow> JsValue \<Rightarrow> JsValue \<Rightarrow> Database
     \<Rightarrow> nat \<times> Database" where
  "putRoute t uuid1 uuid2 i title_v description_v completed_v d =
     (if title_v \<noteq> JUndefined \<and> (\<not> isString title_v \<or> trimmedLength title_v = 0) then (400, d)
      else if completed_v \<noteq> JUndefined \<and> \<not> isBoolean completed_v then (400, d)
      else (case (if description_v \<noteq> JUndefined
                  then map_option Some (optionalTrim description_v) else Some None) of
              None \<Rightarrow> (500, d)
            | Some desc \<Rightarrow>
                (let updates =
                       \<lparr>u_title = (case title_v of JString s \<Rightarrow> Some (trim s) | _ \<Rightarrow> None),
                        u_description = desc,
                        u_completed = (case completed_v of JBool b \<Rightarrow> Some b | _ \<Rightarrow> None),
                        u_created_at = None, u_is_deleted = None, u_server_id = None,
                        u_last_synced_at = None\<rparr>
                 in case updateTask t uuid1 i updates d of
                      (None, d1) \<Rightarrow> (404, d1)
                    | (Some updatedTask, d1) \<Rightarrow>
                        (200, addToSyncQueue t uuid2 (t_id updatedTask) Update
                                (TaskData updatedTask) d1))))"

text \<open>\<open>router.delete('/:id')\<close>\<close>

definition deleteRoute ::
  "timestamp \<Rightarrow> string \<Rightarrow> string \<Rightarrow> string \<Rightarrow> Database \<Rightarrow> nat \<times> Database" where
  "deleteRoute t uuid1 uuid2 i d =
     (case getTask d i of
        None \<Rightarrow> (404, d)
      | Some task \<Rightarrow>
          (case deleteTask t uuid1 i d of
             (False, d1) \<Rightarrow> (404, d1)
           | (True, d1) \<Rightarrow> (204, addToSyncQueue t uuid2 i Delete (TaskData task) d1)))"

section \<open>Reference partition and sample data\<close>

text \<open>
  The partition of a list into consecutive runs of \<open>n\<close> elements (the last one may be
  shorter), used to state what \<open>createBatches\<close> returns.
\<close>

function batchesOf :: "nat \<Rightarrow> 'a list \<Rightarrow> 'a list list" where
  "batchesOf n xs = (if n = 0 \<or> xs = [] then [] else take n xs # batchesOf n (drop n xs))"
  by pat_completeness auto
termination
  by (relation "measure (\<lambda>(n, xs). length xs)") auto

declare batchesOf.simps [simp del]

text \<open>A task, a queue entry for it (with an entry identifier of its own) and a database.\<close>

definition task1 :: Task where
  "task1 = \<lparr>t_id = ''t1'', title = ''Buy milk'', description = None, completed = False,
             created_at = 100, updated_at = 100, is_deleted = False,
             sync_status = Pending, server_id = None, last_synced_at = None\<rparr>"

definition entry1 :: SyncQueueItem where
  "entry1 = \<lparr>q_id = ''e1'', task_id = ''t1'', operation = Create, data = TaskData task1,
              q_created_at = 100, retry_count = 0, error_message = None\<rparr>"

definition db1 :: Database where
  "db1 = \<lparr>tasks = [task1], sync_queue = [entry1]\<rparr>"


text \<open>
  Remote authorities: one that is not reachable, one whose exchange times out, one that
  answers every entry with a success keyed by the entry's \<open>id\<close> (as the batch route of
  this repository does), and one that keys the success by the entry's \<open>task_id\<close>.
\<close>

definition envUnreachable :: Env where
  "envUnreachable = \<lparr>health_ok = False, remote = (\<lambda>k batch. Response []), now = 500,
                      env_SYNC_BATCH_SIZE = None\<rparr>"

definition envTimeout :: Env where
  "envTimeout = \<lparr>health_ok = True, remote = (\<lambda>k batch. AxiosError ''timeout''), now = 500,
                  env_SYNC_BATCH_SIZE = None\<rparr>"





text \<open>The error record that a failure path pushes for an entry.\<close>

definition failureRecord :: "timestamp \<Rightarrow> string \<Rightarrow> SyncQueueItem \<Rightarrow> SyncError" where
  "failureRecord t message item =
     \<lparr>e_task_id = task_id item, e_operation = operation item, e_error = message,
      e_timestamp = t\<rparr>"

text \<open>
  \<open>keeps c c'\<close>: every error record of \<open>c\<close> is still in \<open>c'\<close> and the failed count has
  not gone down.
\<close>

definition keeps :: "Cycle \<Rightarrow> Cycle \<Rightarrow> bool" where
  "keeps c c' \<longleftrightarrow>
     set (errors (result c)) \<subseteq> set (errors (result c')) \<and>
     failed_items (result c) \<le> failed_items (result c')"

section \<open>Batches\<close>

lemma slice_window:
  assumes "0 \<le> i" "i < int (length xs)" "0 < b"
  shows "slice xs i (i + b) = take (nat b) (drop (nat i) xs)"
proof -
  have k: "relativeIndex (int (length xs)) i = nat i"
    using assms by (simp add: relativeIndex_def min_def)
  have f: "relativeIndex (int (length xs)) (i + b) = min (nat i + nat b) (length xs)"
    using assms by (auto simp: relativeIndex_def min_def nat_add_distrib)
  have "take (min (nat i + nat b) (length xs) - nat i) (drop (nat i) xs)
        = take (nat b) (drop (nat i) xs)"
    using assms by (simp add: min_def)
  then show ?thesis
    by (simp add: slice_def Let_def k f)
qed

lemma batchesOf_step:
  "0 < n \<Longrightarrow> xs \<noteq> [] \<Longrightarrow> batchesOf n xs = take n xs # batchesOf n (drop n xs)"
  by (subst batchesOf.simps) simp

lemma batchesOf_Nil: "batchesOf n [] = []"
  by (subst batchesOf.simps) simp

lemma createBatches_loop_pos:
  assumes "0 < b"
  shows "0 \<le> i \<Longrightarrow>
         createBatches_loop xs b i acc = Some (acc @ batchesOf (nat b) (drop (nat i) xs))"
proof (induction "length xs - nat i" arbitrary: i acc rule: less_induct)
  case less
  show ?case
  proof (cases "i < int (length xs)")
    case True
    have step: "nat (i + b) = nat i + nat b"
      using assms less.prems by (simp add: nat_add_distrib)
    have ne: "drop (nat i) xs \<noteq> []"
      using True less.prems by simp
    have "length xs - nat (i + b) < length xs - nat i"
      using True assms less.prems by linarith
    then have ih: "createBatches_loop xs b (i + b) (acc @ [slice xs i (i + b)])
                 = Some ((acc @ [slice xs i (i + b)]) @ batchesOf (nat b) (drop (nat (i + b)) xs))"
      using less.hyps [of "i + b" "acc @ [slice xs i (i + b)]"] assms less.prems by simp
    have unfold: "batchesOf (nat b) (drop (nat i) xs)
          = take (nat b) (drop (nat i) xs) # batchesOf (nat b) (drop (nat i + nat b) xs)"
      using batchesOf_step [of "nat b" "drop (nat i) xs"] assms ne
      by (simp add: add.commute)
    have "createBatches_loop xs b i acc
          = createBatches_loop xs b (i + b) (acc @ [slice xs i (i + b)])"
      using True by (subst createBatches_loop.simps) simp
    also have "\<dots> = Some ((acc @ [take (nat b) (drop (nat i) xs)])
                         @ batchesOf (nat b) (drop (nat i + nat b) xs))"
      using ih unfolding step slice_window [OF less.prems True assms] .
    also have "\<dots> = Some (acc @ batchesOf (nat b) (drop (nat i) xs))"
      unfolding unfold by simp
    finally show ?thesis .
  next
    case False
    then have "drop (nat i) xs = []" by simp
    then show ?thesis
      using False by (subst createBatches_loop.simps) (simp add: batchesOf_Nil)
  qed
qed

lemma createBatches_pos: "0 < b \<Longrightarrow> createBatches xs b = Some (batchesOf (nat b) xs)"
  using createBatches_loop_pos [of b 0 xs "[]"] by (simp add: createBatches_def)

lemma concat_batchesOf: "0 < n \<Longrightarrow> concat (batchesOf n xs) = xs"
proof (induction n xs rule: batchesOf.induct)
  case (1 n xs)
  show ?case
  proof (cases "xs = []")
    case True
    then show ?thesis by (simp add: batchesOf_Nil)
  next
    case False
    then show ?thesis
      using 1 by (subst batchesOf.simps) simp
  qed
qed


section \<open>Conflict resolution\<close>

text \<open>
  Claim C2. \<open>resolveConflict\<close> is a function of its two arguments that returns one of
  them whole: the local version when its \<open>updated_at\<close> is strictly later, the remote
  version when the remote \<open>updated_at\<close> is strictly later, and the remote version when the
  two timestamps are equal.
\<close>

theorem resolveConflict_last_write_wins:
  "(updated_at localTask > updated_at serverTask \<longrightarrow>
      resolveConflict localTask serverTask = localTask) \<and>
   (updated_at serverTask > updated_at localTask \<longrightarrow>
      resolveConflict localTask serverTask = serverTask) \<and>
   (updated_at localTask = updated_at serverTask \<longrightarrow>
      resolveConflict localTask serverTask = serverTask)"
  by (simp add: resolveConflict_def)

theorem resolveConflict_last_write_wins_witness:
  "resolveConflict (task1\<lparr>updated_at := 300\<rparr>) (task1\<lparr>title := ''Remote'', updated_at := 200\<rparr>)
     = task1\<lparr>updated_at := 300\<rparr> \<and>
   resolveConflict task1 (task1\<lparr>title := ''Remote'', updated_at := 200\<rparr>)
     = task1\<lparr>title := ''Remote'', updated_at := 200\<rparr> \<and>
   resolveConflict task1 (task1\<lparr>title := ''Remote''\<rparr>) = task1\<lparr>title := ''Remote''\<rparr>"
  using resolveConflict_last_write_wins
      [where localTask = "task1\<lparr>updated_at := 300\<rparr>"
         and serverTask = "task1\<lparr>title := ''Remote'', updated_at := 200\<rparr>"]
    resolveConflict_last_write_wins
      [where localTask = task1
         and serverTask = "task1\<lparr>title := ''Remote'', updated_at := 200\<rparr>"]
    resolveConflict_last_write_wins
      [where localTask = task1 and serverTask = "task1\<lparr>title := ''Remote''\<rparr>"]
  by (simp add: task1_def)

section \<open>Batch size\<close>

text \<open>
  Claim C4. With no batch size configured the dispatcher would cut the drained entries
  into batches of 50, in order. The constructor falls back to 10, not 50: eleven entries
  drained with \<open>SYNC_BATCH_SIZE\<close> unset are sent as a batch of ten followed by a batch of
  one, where a batch size of 50 gives a single batch of eleven. The order of the entries
  is kept (\<open>concat_batchesOf\<close>).
\<close>

theorem default_batch_size_is_ten:
  "SYNC_BATCH_SIZE envTimeout = 10 \<and>
   createBatches [0::nat, 1, 2, 3, 4, 5, 6, 7, 8, 9, 10] (SYNC_BATCH_SIZE envTimeout)
     = Some [[0, 1, 2, 3, 4, 5, 6, 7, 8, 9], [10]]"
  by (simp add: SYNC_BATCH_SIZE_def envTimeout_def createBatches_pos batchesOf_step batchesOf_Nil)

section \<open>Cycles that exchange nothing\<close>

text \<open>
  Claim C7. When the connectivity probe reports the remote unreachable, \<open>sync\<close> returns
  at once with \<open>success = false\<close>; the database it leaves is the one it was given (no
  entry removed, no retry count or task status changed) and no batch was posted.
\<close>

theorem sync_unreachable:
  assumes "\<not> checkConnectivity env"
  shows "sync env d = Some \<lparr>result = \<lparr>success = False, synced_items = 0, failed_items = 0,
                                       errors = []\<rparr>,
                            db = d, exchanges = []\<rparr>"
  using assms by (simp add: sync_def initialResult_def)

theorem sync_unreachable_witness:
  "\<not> checkConnectivity envUnreachable \<and>
   sync envUnreachable db1 = Some \<lparr>result = \<lparr>success = False, synced_items = 0,
                                               failed_items = 0, errors = []\<rparr>,
                                    db = db1, exchanges = []\<rparr>"
proof -
  have h: "\<not> checkConnectivity envUnreachable"
    by (simp add: checkConnectivity_def envUnreachable_def)
  show ?thesis using h sync_unreachable [OF h, of db1] by simp
qed

text \<open>
  Claim C8. A cycle that reaches the drain and finds no entry below the retry ceiling
  returns \<open>success = true\<close> with zero synced and zero failed items, leaves the database as
  it was and posts no batch.
\<close>

theorem sync_empty_log:
  assumes "checkConnectivity env" and "getSyncQueueItems d = []"
  shows "sync env d = Some \<lparr>result = \<lparr>success = True, synced_items = 0, failed_items = 0,
                                       errors = []\<rparr>,
                            db = d, exchanges = []\<rparr>"
  using assms by (simp add: sync_def initialResult_def)

lemma getSyncQueueItems_exhausted:
  "getSyncQueueItems \<lparr>tasks = [task1], sync_queue = [entry1\<lparr>retry_count := 3\<rparr>]\<rparr> = []"
  by (simp add: getSyncQueueItems_def MAX_RETRY_COUNT_def)

theorem sync_empty_log_witness:
  "checkConnectivity envTimeout \<and>
   getSyncQueueItems \<lparr>tasks = [task1], sync_queue = [entry1\<lparr>retry_count := 3\<rparr>]\<rparr> = [] \<and>
   sync envTimeout \<lparr>tasks = [task1], sync_queue = [entry1\<lparr>retry_count := 3\<rparr>]\<rparr>
     = Some \<lparr>result = \<lparr>success = True, synced_items = 0, failed_items = 0, errors = []\<rparr>,
             db = \<lparr>tasks = [task1], sync_queue = [entry1\<lparr>retry_count := 3\<rparr>]\<rparr>,
             exchanges = []\<rparr>"
proof -
  have h1: "checkConnectivity envTimeout"
    by (simp add: checkConnectivity_def envTimeout_def)
  show ?thesis
    using h1 getSyncQueueItems_exhausted sync_empty_log [OF h1 getSyncQueueItems_exhausted]
    by simp
qed

section \<open>Outcomes\<close>



section \<open>Failure handler\<close>



section \<open>The cycle\<close>

lemma foldl_recordFailure:
  "foldl (\<lambda>c' item. recordFailure t item message c') c batch =
     c\<lparr>db := foldl (\<lambda>d item. handleSyncError item message d) (db c) batch,
       result := (result c)\<lparr>failed_items := failed_items (result c) + length batch,
                            errors := errors (result c) @ map (failureRecord t message) batch\<rparr>\<rparr>"
proof (induction batch arbitrary: c)
  case Nil
  then show ?case by simp
next
  case (Cons item batch)
  show ?case
    by (simp add: Cons.IH) (simp add: recordFailure_def failureRecord_def)
qed

lemma exchanges_recordFailure [simp]: "exchanges (recordFailure t item message c) = exchanges c"
  by (simp add: recordFailure_def)

lemma exchanges_processOutcome [simp]: "exchanges (processOutcome t batch c p) = exchanges c"
  by (simp add: processOutcome_def split: option.splits OutcomeStatus.splits)

lemma exchanges_foldl_processOutcome [simp]:
  "exchanges (foldl (processOutcome t batch) c ps) = exchanges c"
  by (induction ps arbitrary: c) simp_all

lemma exchanges_syncBatch [simp]: "exchanges (syncBatch env k c batch) = exchanges c @ [batch]"
  by (simp add: syncBatch_def Let_def foldl_recordFailure split: sum.splits)

lemma exchanges_syncBatches [simp]:
  "exchanges (syncBatches env k batches c) = exchanges c @ batches"
  by (induction batches arbitrary: k c) simp_all

lemma sync_reachable:
  assumes "checkConnectivity env" and "0 < SYNC_BATCH_SIZE env"
  shows "sync env d =
     Some ((syncBatches env 0 (batchesOf (nat (SYNC_BATCH_SIZE env)) (getSyncQueueItems d))
              \<lparr>result = initialResult, db = d, exchanges = []\<rparr>)
           \<lparr>result := (result (syncBatches env 0
                 (batchesOf (nat (SYNC_BATCH_SIZE env)) (getSyncQueueItems d))
                 \<lparr>result = initialResult, db = d, exchanges = []\<rparr>))
               \<lparr>success := (failed_items (result (syncBatches env 0
                 (batchesOf (nat (SYNC_BATCH_SIZE env)) (getSyncQueueItems d))
                 \<lparr>result = initialResult, db = d, exchanges = []\<rparr>)) = 0)\<rparr>\<rparr>)"
proof (cases "getSyncQueueItems d = []")
  case True
  then show ?thesis
    using assms(1) by (simp add: sync_def batchesOf_Nil initialResult_def)
next
  case False
  then show ?thesis
    using assms by (simp add: sync_def Let_def createBatches_pos)
qed

lemma batchesOf_single: "0 < n \<Longrightarrow> batchesOf n [x] = [[x]]"
  by (simp add: batchesOf_step batchesOf_Nil)

lemma getSyncQueueItems_db1: "getSyncQueueItems db1 = [entry1]"
  by (simp add: getSyncQueueItems_def db1_def entry1_def MAX_RETRY_COUNT_def)

text \<open>
  A cycle whose only batch times out: the entry is counted as failed, stays in the queue
  with retry count 1 and the message, and the cycle reports \<open>success = false\<close>.
\<close>

lemma sync_envTimeout_db1:
  "sync envTimeout db1 =
     Some \<lparr>result = \<lparr>success = False, synced_items = 0, failed_items = 1,
                      errors = [failureRecord 500 ''Batch sync failed: timeout'' entry1]\<rparr>,
           db = \<lparr>tasks = [task1],
                 sync_queue = [entry1\<lparr>retry_count := 1,
                                      error_message := Some ''Batch sync failed: timeout''\<rparr>]\<rparr>,
           exchanges = [[entry1]]\<rparr>"
proof -
  have h1: "checkConnectivity envTimeout"
    by (simp add: checkConnectivity_def envTimeout_def)
  have h2: "0 < SYNC_BATCH_SIZE envTimeout"
    by (simp add: SYNC_BATCH_SIZE_def envTimeout_def)
  have h3: "SYNC_BATCH_SIZE envTimeout = 10"
    by (simp add: SYNC_BATCH_SIZE_def envTimeout_def)
  have h4: "processBatch envTimeout 0 [entry1] = Inl ''Batch sync failed: timeout''"
    by (simp add: processBatch_def envTimeout_def)
  have h5: "now envTimeout = 500"
    by (simp add: envTimeout_def)
  show ?thesis
    unfolding sync_reachable [OF h1 h2] getSyncQueueItems_db1 h3
    by (simp add: batchesOf_single syncBatch_def processBatch_def envTimeout_def
        recordFailure_def handleSyncError_def
        MAX_RETRY_COUNT_def initialResult_def failureRecord_def db1_def entry1_def)
qed

lemma keeps_refl [simp]: "keeps c c"
  by (simp add: keeps_def)

lemma keeps_trans: "keeps a b \<Longrightarrow> keeps b c \<Longrightarrow> keeps a c"
  by (auto simp: keeps_def)

lemma keeps_recordFailure: "keeps c (recordFailure t item message c)"
  by (auto simp: keeps_def recordFailure_def)

lemma keeps_processOutcome: "keeps c (processOutcome t batch c p)"
  by (auto simp: processOutcome_def keeps_recordFailure
      split: option.splits OutcomeStatus.splits)
    (simp_all add: keeps_def)

lemma keeps_foldl_processOutcome: "keeps c (foldl (processOutcome t batch) c ps)"
proof (induction ps arbitrary: c)
  case Nil
  show ?case by simp
next
  case (Cons p ps)
  show ?case
    using keeps_trans [OF keeps_processOutcome Cons.IH] by simp
qed

lemma keeps_foldl_recordFailure:
  "keeps c (foldl (\<lambda>c' item. recordFailure t item message c') c batch)"
proof (induction batch arbitrary: c)
  case Nil
  show ?case by simp
next
  case (Cons item batch)
  show ?case
    using keeps_trans [OF keeps_recordFailure Cons.IH] by simp
qed

lemma keeps_syncBatch: "keeps c (syncBatch env k c batch)"
proof -
  have "keeps c (c\<lparr>exchanges := exchanges c @ [batch]\<rparr>)"
    by (simp add: keeps_def)
  then show ?thesis
    by (auto simp: syncBatch_def Let_def split: sum.splits
        intro: keeps_trans keeps_foldl_processOutcome keeps_foldl_recordFailure)
qed

lemma keeps_syncBatches: "keeps c (syncBatches env k batches c)"
proof (induction batches arbitrary: k c)
  case Nil
  show ?case by simp
next
  case (Cons batch batches)
  show ?case
    using keeps_trans [OF keeps_syncBatch Cons.IH] by simp
qed

lemma syncBatches_append:
  "syncBatches env k (xs @ ys) c = syncBatches env (k + length xs) ys (syncBatches env k xs c)"
  by (induction xs arbitrary: k c) simp_all

lemma syncBatch_failed:
  assumes "processBatch env k batch = Inl message"
  shows "syncBatch env k c batch =
           c\<lparr>exchanges := exchanges c @ [batch],
             db := foldl (\<lambda>d item. handleSyncError item message d) (db c) batch,
             result := (result c)\<lparr>failed_items := failed_items (result c) + length batch,
                                  errors := errors (result c) @
                                    map (failureRecord (now env) message) batch\<rparr>\<rparr>"
  using assms by (simp add: syncBatch_def Let_def foldl_recordFailure)

lemma batchesOf_nonempty: "b \<in> set (batchesOf n xs) \<Longrightarrow> b \<noteq> []"
proof (induction n xs rule: batchesOf.induct)
  case (1 n xs)
  show ?case
  proof (cases "n = 0 \<or> xs = []")
    case True
    with 1(2) show ?thesis by (subst (asm) batchesOf.simps) simp
  next
    case False
    with 1 show ?thesis by (subst (asm) (2) batchesOf.simps) auto
  qed
qed


text \<open>
  Claim C3, as amended. Whenever \<open>sync\<close> returns (it does for every positive batch size),
  \<open>success\<close> is true iff the connectivity probe succeeded and the failed count is zero.
  So \<open>success = true\<close> implies zero failed items, and a cycle that got past the probe has
  \<open>success = (failed_items = 0)\<close>; a cycle that the probe aborts reports
  \<open>success = false\<close> with zero failed items.
\<close>

theorem sync_success_iff:
  assumes "0 < SYNC_BATCH_SIZE env"
  shows "\<exists>c. sync env d = Some c \<and>
             (success (result c) \<longleftrightarrow> checkConnectivity env \<and> failed_items (result c) = 0)"
proof (cases "checkConnectivity env")
  case True
  show ?thesis
    unfolding sync_reachable [OF True assms] using True by simp
next
  case False
  then show ?thesis
    by (simp add: sync_def initialResult_def)
qed

theorem sync_success_iff_witness:
  "0 < SYNC_BATCH_SIZE envTimeout \<and>
   sync envTimeout db1 \<noteq> None \<and>
   success (result (the (sync envTimeout db1)))
     = (checkConnectivity envTimeout \<and> failed_items (result (the (sync envTimeout db1))) = 0)"
proof -
  have h: "0 < SYNC_BATCH_SIZE envTimeout"
    by (simp add: SYNC_BATCH_SIZE_def envTimeout_def)
  from sync_success_iff [OF h, of db1] obtain c where
    "sync envTimeout db1 = Some c"
    "success (result c) \<longleftrightarrow> checkConnectivity envTimeout \<and> failed_items (result c) = 0"
    by blast
  with h show ?thesis by simp
qed


text \<open>
  Claim C3 as stated fails: with the remote unreachable the cycle returns
  \<open>success = false\<close> and \<open>failed_items = 0\<close>.
\<close>

theorem sync_success_counterexample:
  "sync envUnreachable db1 \<noteq> None \<and>
   \<not> (success (result (the (sync envUnreachable db1)))
        \<longleftrightarrow> failed_items (result (the (sync envUnreachable db1))) = 0)"
  by (simp add: sync_def checkConnectivity_def envUnreachable_def initialResult_def)


section \<open>Transport failure of a batch\<close>

text \<open>
  Claim C6. Let the exchange of the \<open>k\<close>-th batch of a cycle fail with \<open>message\<close>. The
  loop body then runs \<open>handleSyncError\<close> on every entry of the batch in order, adds the
  length of the batch to the failed count and appends one error record per entry. The
  cycle goes on: \<open>sync\<close> returns a result, every batch of the partition was posted, the
  records of the failed batch are in the result's errors, the failed count is at least
  the length of that batch, and \<open>success\<close> is false.
\<close>

theorem batch_transport_failure:
  assumes "checkConnectivity env" and "0 < SYNC_BATCH_SIZE env"
    and "batches = batchesOf (nat (SYNC_BATCH_SIZE env)) (getSyncQueueItems d)"
    and "k < length batches"
    and "processBatch env k (batches ! k) = Inl message"
  shows "(\<forall>c. syncBatch env k c (batches ! k) =
            c\<lparr>exchanges := exchanges c @ [batches ! k],
              db := foldl (\<lambda>d item. handleSyncError item message d) (db c) (batches ! k),
              result := (result c)\<lparr>failed_items := failed_items (result c) + length (batches ! k),
                                   errors := errors (result c) @
                                     map (failureRecord (now env) message) (batches ! k)\<rparr>\<rparr>) \<and>
         (\<exists>c'. sync env d = Some c' \<and>
               exchanges c' = batches \<and>
               set (map (failureRecord (now env) message) (batches ! k))
                 \<subseteq> set (errors (result c')) \<and>
               length (batches ! k) \<le> failed_items (result c') \<and>
               \<not> success (result c'))"
proof
  show "\<forall>c. syncBatch env k c (batches ! k) =
            c\<lparr>exchanges := exchanges c @ [batches ! k],
              db := foldl (\<lambda>d item. handleSyncError item message d) (db c) (batches ! k),
              result := (result c)\<lparr>failed_items := failed_items (result c) + length (batches ! k),
                                   errors := errors (result c) @
                                     map (failureRecord (now env) message) (batches ! k)\<rparr>\<rparr>"
    using syncBatch_failed [OF assms(5)] by blast
next
  define c0 where "c0 = \<lparr>result = initialResult, db = d, exchanges = []\<rparr>"
  define before where "before = syncBatches env 0 (take k batches) c0"
  define after where "after = syncBatch env k before (batches ! k)"
  define final where "final = syncBatches env (Suc k) (drop (Suc k) batches) after"
  have split: "batches = take k batches @ (batches ! k) # drop (Suc k) batches"
    using assms(4) by (simp add: id_take_nth_drop)
  have "syncBatches env 0 batches c0
        = syncBatches env 0 (take k batches @ (batches ! k) # drop (Suc k) batches) c0"
    using split by simp
  also have "\<dots> = final"
    using assms(4) by (simp add: syncBatches_append final_def after_def before_def min_def)
  finally have run: "syncBatches env 0 batches c0 = final" .
  have ne: "batches ! k \<noteq> []"
    using assms(4) batchesOf_nonempty [of "batches ! k" "nat (SYNC_BATCH_SIZE env)"
        "getSyncQueueItems d"] nth_mem [of k batches]
    unfolding assms(3) by blast
  have after_eq: "errors (result after) = errors (result before) @
                    map (failureRecord (now env) message) (batches ! k)"
    and after_failed: "failed_items (result after)
                    = failed_items (result before) + length (batches ! k)"
    unfolding after_def syncBatch_failed [OF assms(5)] by simp_all
  have k: "keeps after final"
    unfolding final_def by (rule keeps_syncBatches)
  have errs: "set (map (failureRecord (now env) message) (batches ! k))
                \<subseteq> set (errors (result final))"
    using k after_eq by (auto simp: keeps_def)
  have cnt: "length (batches ! k) \<le> failed_items (result final)"
    using k after_failed by (simp add: keeps_def)
  have pos: "failed_items (result final) \<noteq> 0"
    using cnt ne by (cases "batches ! k") auto
  have ex: "exchanges final = batches"
    using run [symmetric] by (simp add: c0_def)
  have "sync env d = Some (final\<lparr>result := (result final)
                               \<lparr>success := (failed_items (result final) = 0)\<rparr>\<rparr>)"
    unfolding sync_reachable [OF assms(1,2)] run [unfolded c0_def assms(3)] ..
  then show "\<exists>c'. sync env d = Some c' \<and>
               exchanges c' = batches \<and>
               set (map (failureRecord (now env) message) (batches ! k))
                 \<subseteq> set (errors (result c')) \<and>
               length (batches ! k) \<le> failed_items (result c') \<and>
               \<not> success (result c')"
    using errs cnt pos ex by simp
qed

theorem batch_transport_failure_witness:
  "checkConnectivity envTimeout \<and> 0 < SYNC_BATCH_SIZE envTimeout \<and>
   [[entry1]] = batchesOf (nat (SYNC_BATCH_SIZE envTimeout)) (getSyncQueueItems db1) \<and>
   processBatch envTimeout 0 ([[entry1]] ! 0) = Inl ''Batch sync failed: timeout'' \<and>
   sync envTimeout db1 \<noteq> None \<and>
   exchanges (the (sync envTimeout db1)) = [[entry1]] \<and>
   failureRecord 500 ''Batch sync failed: timeout'' entry1
     \<in> set (errors (result (the (sync envTimeout db1)))) \<and>
   1 \<le> failed_items (result (the (sync envTimeout db1))) \<and>
   \<not> success (result (the (sync envTimeout db1)))"
proof -
  have h1: "checkConnectivity envTimeout"
    by (simp add: checkConnectivity_def envTimeout_def)
  have h2: "0 < SYNC_BATCH_SIZE envTimeout"
    by (simp add: SYNC_BATCH_SIZE_def envTimeout_def)
  have h3: "[[entry1]] = batchesOf (nat (SYNC_BATCH_SIZE envTimeout)) (getSyncQueueItems db1)"
    by (simp add: SYNC_BATCH_SIZE_def envTimeout_def getSyncQueueItems_db1 batchesOf_single)
  have h4: "(0::nat) < length [[entry1]]"
    by simp
  have h5: "processBatch envTimeout 0 ([[entry1]] ! 0) = Inl ''Batch sync failed: timeout''"
    by (simp add: processBatch_def envTimeout_def)
  from batch_transport_failure [OF h1 h2 h3 h4 h5] obtain c' where
    c': "sync envTimeout db1 = Some c'" "exchanges c' = [[entry1]]"
      "set (map (failureRecord (now envTimeout) ''Batch sync failed: timeout'') ([[entry1]] ! 0))
         \<subseteq> set (errors (result c'))"
      "length ([[entry1]] ! 0) \<le> failed_items (result c')"
      "\<not> success (result c')"
    by blast
  have "now envTimeout = 500"
    by (simp add: envTimeout_def)
  with c' h1 h2 h5 h3 [symmetric] show ?thesis by (simp del: One_nat_def)
qed

section \<open>Correlation of outcomes with queue entries\<close>


lemma find_first_match:
  "(\<forall>y \<in> set pre. \<not> P y) \<Longrightarrow> P x \<Longrightarrow> find P (pre @ x # post) = Some x"
  by (induction pre) simp_all




section \<open>Task routes and the queue\<close>

lemma getTask_id: "getTask d i = Some task \<Longrightarrow> t_id task = i"
  by (auto simp: getTask_def dest: find_Some_iff [THEN iffD1])

lemma postRoute_cases:
  "postRoute t uuid1 uuid2 uuid3 title_v description_v d = (st, d') \<Longrightarrow>
     (st \<noteq> 201 \<and> d' = d) \<or>
     (st = 201 \<and> (\<exists>task payload.
        sync_queue d' = sync_queue d @
          [\<lparr>q_id = uuid2, task_id = uuid1, operation = Create, data = payload,
            q_created_at = t, retry_count = 0, error_message = None\<rparr>,
           \<lparr>q_id = uuid3, task_id = uuid1, operation = Create, data = payload,
            q_created_at = t, retry_count = 0, error_message = None\<rparr>] \<and>
        tasks d' = tasks d @ [task] \<and> t_id task = uuid1))"
  by (auto simp: postRoute_def createTask_def addToSyncQueue_def Let_def
      split: if_splits JsValue.splits option.splits)

lemma putRoute_cases:
  "putRoute t uuid1 uuid2 i title_v description_v completed_v d = (st, d') \<Longrightarrow>
     (st \<noteq> 200 \<and> d' = d) \<or>
     (st = 200 \<and> getTask d i \<noteq> None \<and> (\<exists>payload.
        sync_queue d' = sync_queue d @
          [\<lparr>q_id = uuid1, task_id = i, operation = Update, data = payload,
            q_created_at = t, retry_count = 0, error_message = None\<rparr>,
           \<lparr>q_id = uuid2, task_id = i, operation = Update, data = payload,
            q_created_at = t, retry_count = 0, error_message = None\<rparr>]))"
  by (auto simp: putRoute_def updateTask_def addToSyncQueue_def Let_def getTask_id
      split: if_splits option.splits prod.splits)

lemma deleteRoute_cases:
  "deleteRoute t uuid1 uuid2 i d = (st, d') \<Longrightarrow>
     (st \<noteq> 204 \<and> d' = d) \<or>
     (st = 204 \<and> (\<exists>task.
        getTask d i = Some task \<and>
        sync_queue d' = sync_queue d @
          [\<lparr>q_id = uuid1, task_id = i, operation = Delete, data = IdData i,
            q_created_at = t, retry_count = 0, error_message = None\<rparr>,
           \<lparr>q_id = uuid2, task_id = i, operation = Delete, data = TaskData task,
            q_created_at = t, retry_count = 0, error_message = None\<rparr>]))"
  by (auto simp: deleteRoute_def deleteTask_def addToSyncQueue_def Let_def
      split: if_splits option.splits prod.splits bool.splits)

lemma trim_sample: "trim ''Buy milk'' = ''Buy milk''"
  by (simp add: trim_def isSpace_def)

lemma getTask_db1: "getTask db1 ''t1'' = Some task1"
  by (simp add: getTask_def db1_def task1_def)

lemma postRoute_db1: "fst (postRoute 500 ''u1'' ''u2'' ''u3'' (JString ''Buy milk'') JUndefined db1) = 201"
  by (simp add: postRoute_def isString_def trimmedLength_def trim_sample optionalTrim_def
      split_def Let_def)

lemma putRoute_db1:
  "fst (putRoute 500 ''u1'' ''u2'' ''t1'' (JString ''Buy milk'') JUndefined (JBool True) db1) = 200"
  by (simp add: putRoute_def isString_def isBoolean_def trimmedLength_def trim_sample
      updateTask_def getTask_db1 Let_def)

lemma deleteRoute_db1: "fst (deleteRoute 500 ''u1'' ''u2'' ''t1'' db1) = 204"
  by (simp add: deleteRoute_def deleteTask_def getTask_db1 Let_def)


text \<open>
  Claim C10. A request that mutates a task through the task routes (\<open>POST\<close> answered 201,
  \<open>PUT\<close> answered 200, \<open>DELETE\<close> answered 204) appends exactly two entries to the queue,
  both for the task concerned and with the route's operation: the first is inserted by
  the task service's method, the second by the route's call to \<open>addToSyncQueue\<close>. Their
  identifiers are two different \<open>uuidv4()\<close> values of the request, taken to be distinct.
  A request answered with any other status leaves the database as it was.
\<close>

theorem routes_enqueue_twice:
  assumes "distinct [uuid1, uuid2, uuid3]"
  shows
    "(postRoute t uuid1 uuid2 uuid3 title_v description_v d = (201, d1) \<longrightarrow>
        (\<exists>e1 e2. sync_queue d1 = sync_queue d @ [e1, e2] \<and> q_id e1 \<noteq> q_id e2 \<and>
           q_id e1 = uuid2 \<and> q_id e2 = uuid3 \<and> task_id e1 = uuid1 \<and> task_id e2 = uuid1 \<and>
           operation e1 = Create \<and> operation e2 = Create)) \<and>
     (putRoute t uuid1 uuid2 i title_v description_v completed_v d = (200, d2) \<longrightarrow>
        (\<exists>e1 e2. sync_queue d2 = sync_queue d @ [e1, e2] \<and> q_id e1 \<noteq> q_id e2 \<and>
           q_id e1 = uuid1 \<and> q_id e2 = uuid2 \<and> task_id e1 = i \<and> task_id e2 = i \<and>
           operation e1 = Update \<and> operation e2 = Update)) \<and>
     (deleteRoute t uuid1 uuid2 i d = (204, d3) \<longrightarrow>
        (\<exists>e1 e2. sync_queue d3 = sync_queue d @ [e1, e2] \<and> q_id e1 \<noteq> q_id e2 \<and>
           q_id e1 = uuid1 \<and> q_id e2 = uuid2 \<and> task_id e1 = i \<and> task_id e2 = i \<and>
           operation e1 = Delete \<and> operation e2 = Delete)) \<and>
     (fst (postRoute t uuid1 uuid2 uuid3 title_v description_v d) \<noteq> 201 \<longrightarrow>
        snd (postRoute t uuid1 uuid2 uuid3 title_v description_v d) = d) \<and>
     (fst (putRoute t uuid1 uuid2 i title_v description_v completed_v d) \<noteq> 200 \<longrightarrow>
        snd (putRoute t uuid1 uuid2 i title_v description_v completed_v d) = d) \<and>
     (fst (deleteRoute t uuid1 uuid2 i d) \<noteq> 204 \<longrightarrow>
        snd (deleteRoute t uuid1 uuid2 i d) = d)"
proof (intro conjI impI)
  assume "postRoute t uuid1 uuid2 uuid3 title_v description_v d = (201, d1)"
  from postRoute_cases [OF this] obtain payload where
    "sync_queue d1 = sync_queue d @
          [\<lparr>q_id = uuid2, task_id = uuid1, operation = Create, data = payload,
            q_created_at = t, retry_count = 0, error_message = None\<rparr>,
           \<lparr>q_id = uuid3, task_id = uuid1, operation = Create, data = payload,
            q_created_at = t, retry_count = 0, error_message = None\<rparr>]"
    by auto
  then show "\<exists>e1 e2. sync_queue d1 = sync_queue d @ [e1, e2] \<and> q_id e1 \<noteq> q_id e2 \<and>
           q_id e1 = uuid2 \<and> q_id e2 = uuid3 \<and> task_id e1 = uuid1 \<and> task_id e2 = uuid1 \<and>
           operation e1 = Create \<and> operation e2 = Create"
    using assms by simp
next
  assume "putRoute t uuid1 uuid2 i title_v description_v completed_v d = (200, d2)"
  from putRoute_cases [OF this] obtain payload where
    "sync_queue d2 = sync_queue d @
          [\<lparr>q_id = uuid1, task_id = i, operation = Update, data = payload,
            q_created_at = t, retry_count = 0, error_message = None\<rparr>,
           \<lparr>q_id = uuid2, task_id = i, operation = Update, data = payload,
            q_created_at = t, retry_count = 0, error_message = None\<rparr>]"
    by auto
  then show "\<exists>e1 e2. sync_queue d2 = sync_queue d @ [e1, e2] \<and> q_id e1 \<noteq> q_id e2 \<and>
           q_id e1 = uuid1 \<and> q_id e2 = uuid2 \<and> task_id e1 = i \<and> task_id e2 = i \<and>
           operation e1 = Update \<and> operation e2 = Update"
    using assms by simp
next
  assume "deleteRoute t uuid1 uuid2 i d = (204, d3)"
  from deleteRoute_cases [OF this] obtain task where
    "sync_queue d3 = sync_queue d @
          [\<lparr>q_id = uuid1, task_id = i, operation = Delete, data = IdData i,
            q_created_at = t, retry_count = 0, error_message = None\<rparr>,
           \<lparr>q_id = uuid2, task_id = i, operation = Delete, data = TaskData task,
            q_created_at = t, retry_count = 0, error_message = None\<rparr>]"
    by auto
  then show "\<exists>e1 e2. sync_queue d3 = sync_queue d @ [e1, e2] \<and> q_id e1 \<noteq> q_id e2 \<and>
           q_id e1 = uuid1 \<and> q_id e2 = uuid2 \<and> task_id e1 = i \<and> task_id e2 = i \<and>
           operation e1 = Delete \<and> operation e2 = Delete"
    using assms by simp
next
  assume "fst (postRoute t uuid1 uuid2 uuid3 title_v description_v d) \<noteq> 201"
  then show "snd (postRoute t uuid1 uuid2 uuid3 title_v description_v d) = d"
    using postRoute_cases [OF prod.collapse [symmetric],
        of t uuid1 uuid2 uuid3 title_v description_v d]
    by simp
next
  assume "fst (putRoute t uuid1 uuid2 i title_v description_v completed_v d) \<noteq> 200"
  then show "snd (putRoute t uuid1 uuid2 i title_v description_v completed_v d) = d"
    using putRoute_cases [OF prod.collapse [symmetric],
        of t uuid1 uuid2 i title_v description_v completed_v d]
    by simp
next
  assume "fst (deleteRoute t uuid1 uuid2 i d) \<noteq> 204"
  then show "snd (deleteRoute t uuid1 uuid2 i d) = d"
    using deleteRoute_cases [OF prod.collapse [symmetric], of t uuid1 uuid2 i d]
    by simp
qed


theorem routes_enqueue_twice_witness:
  "distinct [''u1'', ''u2'', ''u3''] \<and>
   fst (postRoute 500 ''u1'' ''u2'' ''u3'' (JString ''Buy milk'') JUndefined db1) = 201 \<and>
   map q_id (sync_queue (snd (postRoute 500 ''u1'' ''u2'' ''u3'' (JString ''Buy milk'')
      JUndefined db1))) = [''e1'', ''u2'', ''u3''] \<and>
   fst (putRoute 500 ''u1'' ''u2'' ''t1'' (JString ''Buy milk'') JUndefined (JBool True) db1) = 200 \<and>
   map q_id (sync_queue (snd (putRoute 500 ''u1'' ''u2'' ''t1'' (JString ''Buy milk'')
      JUndefined (JBool True) db1))) = [''e1'', ''u1'', ''u2''] \<and>
   fst (deleteRoute 500 ''u1'' ''u2'' ''t1'' db1) = 204 \<and>
   map q_id (sync_queue (snd (deleteRoute 500 ''u1'' ''u2'' ''t1'' db1)))
     = [''e1'', ''u1'', ''u2'']"
proof -
  have h: "distinct [''u1'', ''u2'', ''u3'']"
    by simp
  have q: "map q_id (sync_queue db1) = [''e1'']"
    by (simp add: db1_def entry1_def)
  note r = routes_enqueue_twice [OF h, where t = 500 and title_v = "JString ''Buy milk''"
      and description_v = JUndefined and completed_v = "JBool True" and d = db1
      and i = "''t1''"
      and ?d1.0 = "snd (postRoute 500 ''u1'' ''u2'' ''u3'' (JString ''Buy milk'') JUndefined db1)"
      and ?d2.0 = "snd (putRoute 500 ''u1'' ''u2'' ''t1'' (JString ''Buy milk'') JUndefined
                     (JBool True) db1)"
      and ?d3.0 = "snd (deleteRoute 500 ''u1'' ''u2'' ''t1'' db1)"]
  have a: "map q_id (sync_queue (snd (postRoute 500 ''u1'' ''u2'' ''u3'' (JString ''Buy milk'')
      JUndefined db1))) = [''e1'', ''u2'', ''u3'']"
    using r postRoute_db1 q by (auto simp: prod_eq_iff)
  have b: "map q_id (sync_queue (snd (putRoute 500 ''u1'' ''u2'' ''t1'' (JString ''Buy milk'')
      JUndefined (JBool True) db1))) = [''e1'', ''u1'', ''u2'']"
    using r putRoute_db1 q by (auto simp: prod_eq_iff)
  have c: "map q_id (sync_queue (snd (deleteRoute 500 ''u1'' ''u2'' ''t1'' db1)))
     = [''e1'', ''u1'', ''u2'']"
    using r deleteRoute_db1 q by (auto simp: prod_eq_iff)
  from h postRoute_db1 a putRoute_db1 b deleteRoute_db1 c show ?thesis
    by (intro conjI)
qed

end
